theory Spec2Isabelle
  imports Main
begin

section \<open>Data model of \<open>src/components/upProvider.tsx\<close>\<close>

text \<open>
  The component keeps six \<open>useState\<close> cells. Addresses are the strings
  \<^verbatim>\<open>`0x${string}`\<close>; the chain identifier is the integer of the spec's data model
  (a JavaScript \<open>number\<close> that is not an integer, such as \<open>NaN\<close>, is outside this
  model). A thrown JavaScript value is an \<open>error\<close>.
\<close>

type_synonym address = string

datatype error = Error string

record up_state =
  chainId :: int
  accounts :: "address list"
  contextAccounts :: "address list"
  walletConnected :: bool
  selectedAddress :: "address option"
  isSearching :: bool

text \<open>The initial values given to \<open>useState\<close> (lines 65 to 74).\<close>

definition initial_state :: up_state where
  "initial_state =
     \<lparr>chainId = 0, accounts = [], contextAccounts = [], walletConnected = False,
      selectedAddress = None, isSearching = False\<rparr>"

text \<open>The state setters returned by \<open>useState\<close>: each replaces one cell.\<close>

definition setChainId :: "int \<Rightarrow> up_state \<Rightarrow> up_state" where
  "setChainId n s = s\<lparr>chainId := n\<rparr>"

definition setAccounts :: "address list \<Rightarrow> up_state \<Rightarrow> up_state" where
  "setAccounts xs s = s\<lparr>accounts := xs\<rparr>"

definition setContextAccounts :: "address list \<Rightarrow> up_state \<Rightarrow> up_state" where
  "setContextAccounts xs s = s\<lparr>contextAccounts := xs\<rparr>"

definition setWalletConnected :: "bool \<Rightarrow> up_state \<Rightarrow> up_state" where
  "setWalletConnected b s = s\<lparr>walletConnected := b\<rparr>"

definition setSelectedAddress :: "address option \<Rightarrow> up_state \<Rightarrow> up_state" where
  "setSelectedAddress a s = s\<lparr>selectedAddress := a\<rparr>"

definition setIsSearching :: "bool \<Rightarrow> up_state \<Rightarrow> up_state" where
  "setIsSearching b s = s\<lparr>isSearching := b\<rparr>"

text \<open>
  \<open>xs[0]\<close> in JavaScript: the first element, \<open>undefined\<close> (here \<open>None\<close>) when
  the array is empty. \<open>x != null\<close> is then \<open>x \<noteq> None\<close>.
\<close>

definition first :: "'a list \<Rightarrow> 'a option" where
  "first xs = (case xs of [] \<Rightarrow> None | x # _ \<Rightarrow> Some x)"

text \<open>
  Lines 75 and 76: each render destructures the first wallet address and the first
  context address. The functions created by the effect of that render close over
  these two values.
\<close>

record closure =
  account :: "address option"
  contextAccount :: "address option"

definition render_closure :: "up_state \<Rightarrow> closure" where
  "render_closure s =
     \<lparr>account = first (accounts s), contextAccount = first (contextAccounts s)\<rparr>"

section \<open>The provider handle and the two clients\<close>

text \<open>
  Line 49: the module-level \<open>provider\<close> is the single handle made by
  \<open>createClientUPProvider()\<close> in a browser and \<open>null\<close> elsewhere. The handle is
  passed to every function below as the parameter \<open>pr\<close>.
\<close>

datatype provider_ref = UpProviderRef

datatype chain = lukso | luksoTestnet

datatype transport = custom provider_ref

datatype wallet_client = WalletClient chain transport

datatype public_client = PublicClient chain transport

text \<open>Lines 78 to 86. \<open>provider && chainId\<close> is falsy for a null handle and for 0.\<close>

definition client :: "provider_ref option \<Rightarrow> int \<Rightarrow> wallet_client option" where
  "client pr n =
     (case pr of
        None \<Rightarrow> None
      | Some p \<Rightarrow>
          if n \<noteq> 0
          then Some (WalletClient (if n = 42 then lukso else luksoTestnet) (custom p))
          else None)"

text \<open>Lines 88 to 96.\<close>

definition readClient :: "provider_ref option \<Rightarrow> int \<Rightarrow> public_client option" where
  "readClient pr n =
     (case pr of
        None \<Rightarrow> None
      | Some p \<Rightarrow>
          if n \<noteq> 0
          then Some (PublicClient (if n = 42 then lukso else luksoTestnet) (custom p))
          else None)"

section \<open>The exposed context value and the hook\<close>

text \<open>
  Lines 166 to 179: the object handed to \<open>UpContext.Provider\<close>. The two setters are
  the functions a descendant receives; calling one replaces that cell of the state.
\<close>

record UpProviderContext =
  ctx_provider :: "provider_ref option"
  ctx_client :: "wallet_client option"
  ctx_chainId :: int
  ctx_readClient :: "public_client option"
  ctx_accounts :: "address list"
  ctx_contextAccounts :: "address list"
  ctx_walletConnected :: bool
  ctx_selectedAddress :: "address option"
  ctx_setSelectedAddress :: "address option \<Rightarrow> up_state \<Rightarrow> up_state"
  ctx_isSearching :: bool
  ctx_setIsSearching :: "bool \<Rightarrow> up_state \<Rightarrow> up_state"

definition data :: "provider_ref option \<Rightarrow> up_state \<Rightarrow> UpProviderContext" where
  "data pr s =
     \<lparr>ctx_provider = pr,
      ctx_client = client pr (chainId s),
      ctx_chainId = chainId s,
      ctx_readClient = readClient pr (chainId s),
      ctx_accounts = accounts s,
      ctx_contextAccounts = contextAccounts s,
      ctx_walletConnected = walletConnected s,
      ctx_selectedAddress = selectedAddress s,
      ctx_setSelectedAddress = setSelectedAddress,
      ctx_isSearching = isSearching s,
      ctx_setIsSearching = setIsSearching\<rparr>"

text \<open>
  \<open>useContext(UpContext)\<close>: the value of the nearest enclosing \<open>UpContext.Provider\<close>.
  The position of the caller in the tree is the list of the values of the enclosing
  providers, nearest first; with none, the default of \<open>createContext\<close> (line 47),
  \<open>undefined\<close>, is returned.
\<close>

definition useContext :: "UpProviderContext list \<Rightarrow> UpProviderContext option" where
  "useContext enclosing = first enclosing"

text \<open>Lines 52 to 58. A context value is an object, hence truthy.\<close>

definition useUpProvider :: "UpProviderContext list \<Rightarrow> error + UpProviderContext" where
  "useUpProvider enclosing =
     (case useContext enclosing of
        None \<Rightarrow> Inl (Error ''useUpProvider must be used within a UpProvider'')
      | Some context \<Rightarrow> Inr context)"

section \<open>The injected provider\<close>

text \<open>
  The provider object comes from the library \<open>@lukso/up-provider\<close>. The component
  touches it in four ways: \<open>request(name)\<close>, the property \<open>contextAccounts\<close>,
  \<open>on(name, f)\<close> and \<open>removeListener(name, f)\<close>. What the component can observe of
  the provider's state is its context accounts and its table of listeners, kept as an
  event emitter keeps it: \<open>on\<close> appends a registration, \<open>removeListener\<close> takes one
  registration of that function under that name away, and an emitted event calls the
  functions registered under its name in order.

  A function object made by the effect is a \<open>listener\<close>: the number of the effect run
  that created it (two runs never share a function object) and its code with the values
  it closes over.
\<close>

datatype callback =
  AccountsChangedFn closure
| ContextAccountsChangedFn closure
| ChainChangedFn

type_synonym listener = "nat \<times> callback"

record UPClientProvider =
  provider_contextAccounts :: "address list"
  provider_listeners :: "(string \<times> listener) list"

datatype provider_call =
  Request string
| ReadContextAccounts
| On string listener
| RemoveListener string listener

definition provider_on :: "string \<Rightarrow> listener \<Rightarrow> UPClientProvider \<Rightarrow> UPClientProvider" where
  "provider_on name l ps = ps\<lparr>provider_listeners := provider_listeners ps @ [(name, l)]\<rparr>"

definition provider_removeListener ::
  "string \<Rightarrow> listener \<Rightarrow> UPClientProvider \<Rightarrow> UPClientProvider" where
  "provider_removeListener name l ps =
     ps\<lparr>provider_listeners := remove1 (name, l) (provider_listeners ps)\<rparr>"

fun perform :: "provider_call \<Rightarrow> UPClientProvider \<Rightarrow> UPClientProvider" where
  "perform (On name l) ps = provider_on name l ps"
| "perform (RemoveListener name l) ps = provider_removeListener name l ps"
| "perform (Request name) ps = ps"
| "perform ReadContextAccounts ps = ps"

fun perform_all :: "provider_call list \<Rightarrow> UPClientProvider \<Rightarrow> UPClientProvider" where
  "perform_all [] ps = ps"
| "perform_all (c # cs) ps = perform_all cs (perform c ps)"

fun request_names :: "provider_call list \<Rightarrow> string list" where
  "request_names [] = []"
| "request_names (Request name # cs) = name # request_names cs"
| "request_names (_ # cs) = request_names cs"

fun subscribed_names :: "provider_call list \<Rightarrow> string list" where
  "subscribed_names [] = []"
| "subscribed_names (On name l # cs) = name # subscribed_names cs"
| "subscribed_names (_ # cs) = subscribed_names cs"

fun unsubscribed_names :: "provider_call list \<Rightarrow> string list" where
  "unsubscribed_names [] = []"
| "unsubscribed_names (RemoveListener name l # cs) = name # unsubscribed_names cs"
| "unsubscribed_names (_ # cs) = unsubscribed_names cs"

definition run_ids :: "UPClientProvider \<Rightarrow> nat list" where
  "run_ids ps = map (\<lambda>(name, l). fst l) (provider_listeners ps)"

section \<open>The event handlers\<close>

text \<open>
  Lines 130 to 142. \<open>accountsChanged\<close> and \<open>contextAccountsChanged\<close> read the other
  array's first element from the closure of the render whose effect created them, not
  from the current state.
\<close>

definition accountsChanged :: "closure \<Rightarrow> address list \<Rightarrow> up_state \<Rightarrow> up_state" where
  "accountsChanged cl new_accounts s =
     setWalletConnected (first new_accounts \<noteq> None \<and> contextAccount cl \<noteq> None)
       (setAccounts new_accounts s)"

definition contextAccountsChanged :: "closure \<Rightarrow> address list \<Rightarrow> up_state \<Rightarrow> up_state" where
  "contextAccountsChanged cl new_accounts s =
     setWalletConnected (account cl \<noteq> None \<and> first new_accounts \<noteq> None)
       (setContextAccounts new_accounts s)"

definition chainChanged :: "int \<Rightarrow> up_state \<Rightarrow> up_state" where
  "chainChanged new_chainId s = setChainId new_chainId s"

text \<open>
  An emitted event carries an account list or a chain number. Calling a listener with
  the argument of another event's type is outside the provider's typing and is the value
  \<open>None\<close>.
\<close>

datatype payload = AccountList "address list" | ChainNumber int

fun call_listener :: "callback \<Rightarrow> payload \<Rightarrow> up_state \<Rightarrow> up_state option" where
  "call_listener (AccountsChangedFn cl) (AccountList xs) s = Some (accountsChanged cl xs s)"
| "call_listener (ContextAccountsChangedFn cl) (AccountList xs) s =
     Some (contextAccountsChanged cl xs s)"
| "call_listener ChainChangedFn (ChainNumber n) s = Some (chainChanged n s)"
| "call_listener _ _ _ = None"

fun emit_to :: "(string \<times> listener) list \<Rightarrow> string \<Rightarrow> payload \<Rightarrow> up_state \<Rightarrow> up_state option" where
  "emit_to [] name arg s = Some s"
| "emit_to ((nm, l) # ls) name arg s =
     (if nm = name
      then (case call_listener (snd l) arg s of
              None \<Rightarrow> None
            | Some s' \<Rightarrow> emit_to ls name arg s')
      else emit_to ls name arg s)"

definition emit :: "UPClientProvider \<Rightarrow> string \<Rightarrow> payload \<Rightarrow> up_state \<Rightarrow> up_state option" where
  "emit ps name arg s = emit_to (provider_listeners ps) name arg s"

section \<open>Initialization\<close>

text \<open>
  Lines 101 to 125. \<open>init\<close> is asynchronous: it awaits two requests. What the
  environment decides is collected in \<open>init_env\<close>: how each request settles (\<open>Inl\<close> a
  rejection, \<open>Inr\<close> the value; for \<open>eth_chainId\<close> the value is \<open>Number\<close> of the
  answer), and what the local \<open>mounted\<close> is when \<open>init\<close> resumes after each await
  (the cleanup of this effect run may have set it to false in between). The third test
  of \<open>mounted\<close>, on line 119, follows the second with no await in between and reads the
  same value. \<open>provider.contextAccounts\<close> is read from the provider state \<open>ps\<close>.

  \<open>init_body\<close> is the body of the \<open>try\<close>: its first component is the error it
  throws, if any; the state setters called before a throw have taken effect.
\<close>

record init_env =
  eth_accounts_result :: "error + address list"
  eth_chainId_result :: "error + int"
  mounted_after_eth_accounts :: bool
  mounted_after_eth_chainId :: bool

definition init_body ::
  "wallet_client option \<Rightarrow> provider_ref option \<Rightarrow> UPClientProvider \<Rightarrow> init_env \<Rightarrow> up_state \<Rightarrow>
     error option \<times> up_state \<times> provider_call list" where
  "init_body c pr ps env s =
     (if c = None \<or> pr = None then (None, s, [])
      else
        case eth_accounts_result env of
          Inl e \<Rightarrow> (Some e, s, [Request ''eth_accounts''])
        | Inr new_accounts \<Rightarrow>
            if \<not> mounted_after_eth_accounts env then (None, s, [Request ''eth_accounts''])
            else
              let s1 = setAccounts new_accounts s in
              (case eth_chainId_result env of
                 Inl e \<Rightarrow> (Some e, s1, [Request ''eth_accounts'', Request ''eth_chainId''])
               | Inr new_chainId \<Rightarrow>
                   if \<not> mounted_after_eth_chainId env
                   then (None, s1, [Request ''eth_accounts'', Request ''eth_chainId''])
                   else
                     let s2 = setChainId new_chainId s1;
                         new_contextAccounts = provider_contextAccounts ps;
                         s3 = setContextAccounts new_contextAccounts s2
                     in (None,
                         setWalletConnected
                           (first new_accounts \<noteq> None \<and> first new_contextAccounts \<noteq> None) s3,
                         [Request ''eth_accounts'', Request ''eth_chainId'',
                          ReadContextAccounts])))"

text \<open>
  The result of running \<open>init\<close>: the state, the calls made on the provider, what was
  written with \<open>console.error\<close>, and the error with which the promise of \<open>init\<close>
  rejects, if it does. The \<open>catch\<close> on lines 122 to 124 logs whatever the body throws.
\<close>

record init_result =
  res_state :: up_state
  res_calls :: "provider_call list"
  res_console :: "error list"
  res_thrown :: "error option"

definition init ::
  "wallet_client option \<Rightarrow> provider_ref option \<Rightarrow> UPClientProvider \<Rightarrow> init_env \<Rightarrow> up_state \<Rightarrow>
     init_result" where
  "init c pr ps env s =
     (case init_body c pr ps env s of
        (Some e, s', calls) \<Rightarrow>
          \<lparr>res_state = s', res_calls = calls, res_console = [e], res_thrown = None\<rparr>
      | (None, s', calls) \<Rightarrow>
          \<lparr>res_state = s', res_calls = calls, res_console = [], res_thrown = None\<rparr>)"

text \<open>
  While \<open>init\<close> waits for a request the event loop goes on: the handlers that the same
  effect run has registered, and the setters handed to descendants, may change the
  state before \<open>init\<close> resumes. \<open>init\<close> reads no cell of the state, so each of its
  setter calls acts on the state as it is when \<open>init\<close> resumes.
  \<open>init_body_interleaved\<close> is \<open>init_body\<close> with what happens to the state while
  \<open>eth_accounts\<close> is pending and while \<open>eth_chainId\<close> is pending made explicit, as
  two functions on the state; with nothing happening during the waits it is
  \<open>init_body\<close>.
\<close>

definition init_body_interleaved ::
  "wallet_client option \<Rightarrow> provider_ref option \<Rightarrow> UPClientProvider \<Rightarrow> init_env \<Rightarrow>
     (up_state \<Rightarrow> up_state) \<Rightarrow> (up_state \<Rightarrow> up_state) \<Rightarrow> up_state \<Rightarrow>
     error option \<times> up_state \<times> provider_call list" where
  "init_body_interleaved c pr ps env during_eth_accounts during_eth_chainId s =
     (if c = None \<or> pr = None then (None, s, [])
      else
        let r1 = during_eth_accounts s in
        case eth_accounts_result env of
          Inl e \<Rightarrow> (Some e, r1, [Request ''eth_accounts''])
        | Inr new_accounts \<Rightarrow>
            if \<not> mounted_after_eth_accounts env then (None, r1, [Request ''eth_accounts''])
            else
              let s1 = setAccounts new_accounts r1;
                  r2 = during_eth_chainId s1
              in
              (case eth_chainId_result env of
                 Inl e \<Rightarrow> (Some e, r2, [Request ''eth_accounts'', Request ''eth_chainId''])
               | Inr new_chainId \<Rightarrow>
                   if \<not> mounted_after_eth_chainId env
                   then (None, r2, [Request ''eth_accounts'', Request ''eth_chainId''])
                   else
                     let s2 = setChainId new_chainId r2;
                         new_contextAccounts = provider_contextAccounts ps;
                         s3 = setContextAccounts new_contextAccounts s2
                     in (None,
                         setWalletConnected
                           (first new_accounts \<noteq> None \<and> first new_contextAccounts \<noteq> None) s3,
                         [Request ''eth_accounts'', Request ''eth_chainId'',
                          ReadContextAccounts])))"

definition init_interleaved ::
  "wallet_client option \<Rightarrow> provider_ref option \<Rightarrow> UPClientProvider \<Rightarrow> init_env \<Rightarrow>
     (up_state \<Rightarrow> up_state) \<Rightarrow> (up_state \<Rightarrow> up_state) \<Rightarrow> up_state \<Rightarrow> init_result" where
  "init_interleaved c pr ps env during_eth_accounts during_eth_chainId s =
     (case init_body_interleaved c pr ps env during_eth_accounts during_eth_chainId s of
        (Some e, s', calls) \<Rightarrow>
          \<lparr>res_state = s', res_calls = calls, res_console = [e], res_thrown = None\<rparr>
      | (None, s', calls) \<Rightarrow>
          \<lparr>res_state = s', res_calls = calls, res_console = [], res_thrown = None\<rparr>)"

section \<open>The effect and its cleanup\<close>

text \<open>
  Lines 98 to 162. The effect of a render with state \<open>s\<close> starts \<open>init\<close> with the
  client of that render and, when the provider handle is not null, creates the three
  handlers over the closure of that render, registers them (lines 144 to 146) and
  returns a cleanup function. With a null handle nothing is registered and no cleanup is
  returned. \<open>eff_calls\<close> lists the calls made on the provider, those of \<open>init\<close> first.
\<close>

definition register_calls :: "nat \<Rightarrow> closure \<Rightarrow> provider_call list" where
  "register_calls run cl =
     [On ''accountsChanged'' (run, AccountsChangedFn cl),
      On ''chainChanged'' (run, ChainChangedFn),
      On ''contextAccountsChanged'' (run, ContextAccountsChangedFn cl)]"

text \<open>Lines 148 to 156: the cleanup sets \<open>mounted\<close> to false and removes the listeners.\<close>

definition cleanup_calls :: "nat \<Rightarrow> closure \<Rightarrow> provider_call list" where
  "cleanup_calls run cl =
     [RemoveListener ''accountsChanged'' (run, AccountsChangedFn cl),
      RemoveListener ''contextAccountsChanged'' (run, ContextAccountsChangedFn cl),
      RemoveListener ''chainChanged'' (run, ChainChangedFn)]"


record effect_result =
  eff_state :: up_state
  eff_provider :: UPClientProvider
  eff_calls :: "provider_call list"
  eff_console :: "error list"
  eff_has_cleanup :: bool

definition effect ::
  "provider_ref option \<Rightarrow> nat \<Rightarrow> init_env \<Rightarrow> UPClientProvider \<Rightarrow> up_state \<Rightarrow> effect_result" where
  "effect pr run env ps s =
     (let r = init (client pr (chainId s)) pr ps env s in
      case pr of
        None \<Rightarrow>
          \<lparr>eff_state = res_state r, eff_provider = ps, eff_calls = res_calls r,
           eff_console = res_console r, eff_has_cleanup = False\<rparr>
      | Some p \<Rightarrow>
          \<lparr>eff_state = res_state r,
           eff_provider = perform_all (register_calls run (render_closure s)) ps,
           eff_calls = res_calls r @ register_calls run (render_closure s),
           eff_console = res_console r, eff_has_cleanup = True\<rparr>)"

text \<open>Mounting: the first render has the initial state, and its effect is run 0.\<close>

definition mount :: "provider_ref option \<Rightarrow> init_env \<Rightarrow> UPClientProvider \<Rightarrow> effect_result" where
  "mount pr env ps = effect pr 0 env ps initial_state"

section \<open>Notions used by the properties\<close>


definition flag_reflects_arrays :: "up_state \<Rightarrow> bool" where
  "flag_reflects_arrays s =
     (walletConnected s = (first (accounts s) \<noteq> None \<and> first (contextAccounts s) \<noteq> None))"

text \<open>
  The cells that mirror the provider, and the two cells whose setters are part of the
  context value.
\<close>

definition mirrored :: "up_state \<Rightarrow> int \<times> address list \<times> address list \<times> bool" where
  "mirrored s = (chainId s, accounts s, contextAccounts s, walletConnected s)"

definition consumer_cells :: "up_state \<Rightarrow> address option \<times> bool" where
  "consumer_cells s = (selectedAddress s, isSearching s)"

text \<open>
  The initialization with its two requests in the opposite order, as the spec's
  section 5 considers it: \<open>eth_chainId\<close> is requested and stored first, then
  \<open>eth_accounts\<close>; everything else is as in \<open>init_body\<close> and \<open>init\<close>. This variant
  is not in the source; it is what the source is compared with.
\<close>

definition init_body_chainId_first ::
  "wallet_client option \<Rightarrow> provider_ref option \<Rightarrow> UPClientProvider \<Rightarrow> init_env \<Rightarrow> up_state \<Rightarrow>
     error option \<times> up_state \<times> provider_call list" where
  "init_body_chainId_first c pr ps env s =
     (if c = None \<or> pr = None then (None, s, [])
      else
        case eth_chainId_result env of
          Inl e \<Rightarrow> (Some e, s, [Request ''eth_chainId''])
        | Inr new_chainId \<Rightarrow>
            if \<not> mounted_after_eth_chainId env then (None, s, [Request ''eth_chainId''])
            else
              let s1 = setChainId new_chainId s in
              (case eth_accounts_result env of
                 Inl e \<Rightarrow> (Some e, s1, [Request ''eth_chainId'', Request ''eth_accounts''])
               | Inr new_accounts \<Rightarrow>
                   if \<not> mounted_after_eth_accounts env
                   then (None, s1, [Request ''eth_chainId'', Request ''eth_accounts''])
                   else
                     let s2 = setAccounts new_accounts s1;
                         new_contextAccounts = provider_contextAccounts ps;
                         s3 = setContextAccounts new_contextAccounts s2
                     in (None,
                         setWalletConnected
                           (first new_accounts \<noteq> None \<and> first new_contextAccounts \<noteq> None) s3,
                         [Request ''eth_chainId'', Request ''eth_accounts'',
                          ReadContextAccounts])))"

definition init_chainId_first ::
  "wallet_client option \<Rightarrow> provider_ref option \<Rightarrow> UPClientProvider \<Rightarrow> init_env \<Rightarrow> up_state \<Rightarrow>
     init_result" where
  "init_chainId_first c pr ps env s =
     (case init_body_chainId_first c pr ps env s of
        (Some e, s', calls) \<Rightarrow>
          \<lparr>res_state = s', res_calls = calls, res_console = [e], res_thrown = None\<rparr>
      | (None, s', calls) \<Rightarrow>
          \<lparr>res_state = s', res_calls = calls, res_console = [], res_thrown = None\<rparr>)"

section \<open>Properties\<close>

subsection \<open>Auxiliary facts about \<open>init\<close>\<close>

lemmas setters =
  setChainId_def setAccounts_def setContextAccounts_def setWalletConnected_def
  setSelectedAddress_def setIsSearching_def

lemma init_guard:
  "c = None \<or> pr = None \<Longrightarrow>
   init c pr ps env s = \<lparr>res_state = s, res_calls = [], res_console = [], res_thrown = None\<rparr>"
  by (simp add: init_def init_body_def)

lemma init_complete:
  assumes "c \<noteq> None" "pr \<noteq> None"
    and "eth_accounts_result env = Inr xs" "eth_chainId_result env = Inr n"
    and "mounted_after_eth_accounts env" "mounted_after_eth_chainId env"
  shows "init c pr ps env s =
    \<lparr>res_state =
       s\<lparr>accounts := xs, chainId := n, contextAccounts := provider_contextAccounts ps,
         walletConnected := (first xs \<noteq> None \<and> first (provider_contextAccounts ps) \<noteq> None)\<rparr>,
     res_calls = [Request ''eth_accounts'', Request ''eth_chainId'', ReadContextAccounts],
     res_console = [], res_thrown = None\<rparr>"
  using assms by (simp add: init_def init_body_def Let_def setters)

lemma init_consumer_cells: "consumer_cells (res_state (init c pr ps env s)) = consumer_cells s"
  by (simp add: init_def init_body_def Let_def consumer_cells_def setters
      split: sum.splits)

lemma init_chainId_first_complete:
  assumes "c \<noteq> None" "pr \<noteq> None"
    and "eth_accounts_result env = Inr xs" "eth_chainId_result env = Inr n"
    and "mounted_after_eth_accounts env" "mounted_after_eth_chainId env"
  shows "init_chainId_first c pr ps env s =
    \<lparr>res_state =
       s\<lparr>chainId := n, accounts := xs, contextAccounts := provider_contextAccounts ps,
         walletConnected := (first xs \<noteq> None \<and> first (provider_contextAccounts ps) \<noteq> None)\<rparr>,
     res_calls = [Request ''eth_chainId'', Request ''eth_accounts'', ReadContextAccounts],
     res_console = [], res_thrown = None\<rparr>"
  using assms by (simp add: init_chainId_first_def init_body_chainId_first_def Let_def setters)

lemma init_chainId_first_guard:
  "c = None \<or> pr = None \<Longrightarrow>
   init_chainId_first c pr ps env s =
     \<lparr>res_state = s, res_calls = [], res_console = [], res_thrown = None\<rparr>"
  by (simp add: init_chainId_first_def init_body_chainId_first_def)

lemma init_request_names:
  "set (request_names (res_calls (init c pr ps env s))) \<subseteq> {''eth_accounts'', ''eth_chainId''}"
  "subscribed_names (res_calls (init c pr ps env s)) = []"
  "unsubscribed_names (res_calls (init c pr ps env s)) = []"
  by (auto simp: init_def init_body_def Let_def split: sum.splits)

lemma request_names_append: "request_names (xs @ ys) = request_names xs @ request_names ys"
  by (induction xs rule: request_names.induct) simp_all

lemma subscribed_names_append:
  "subscribed_names (xs @ ys) = subscribed_names xs @ subscribed_names ys"
  by (induction xs rule: subscribed_names.induct) simp_all

lemma unsubscribed_names_append:
  "unsubscribed_names (xs @ ys) = unsubscribed_names xs @ unsubscribed_names ys"
  by (induction xs rule: unsubscribed_names.induct) simp_all

lemma init_interleaved_nothing:
  "init_interleaved c pr ps env (\<lambda>s. s) (\<lambda>s. s) s = init c pr ps env s"
  by (simp add: init_interleaved_def init_body_interleaved_def init_def init_body_def Let_def
      split: sum.splits)

lemma init_interleaved_requests:
  assumes "c \<noteq> None" "pr \<noteq> None"
  shows "request_names (res_calls (init_interleaved c pr ps env f g s)) =
      (case eth_accounts_result env of
         Inl e \<Rightarrow> [''eth_accounts'']
       | Inr xs \<Rightarrow>
           if mounted_after_eth_accounts env then [''eth_accounts'', ''eth_chainId'']
           else [''eth_accounts''])"
  using assms
  by (simp add: init_interleaved_def init_body_interleaved_def Let_def split: sum.splits)

lemma init_interleaved_complete:
  assumes "c \<noteq> None" "pr \<noteq> None"
    and "eth_accounts_result env = Inr xs" "eth_chainId_result env = Inr n"
    and "mounted_after_eth_accounts env" "mounted_after_eth_chainId env"
  shows "res_state (init_interleaved c pr ps env f g s) =
      (g (setAccounts xs (f s)))
        \<lparr>chainId := n, contextAccounts := provider_contextAccounts ps,
         walletConnected := (first xs \<noteq> None \<and> first (provider_contextAccounts ps) \<noteq> None)\<rparr>"
  using assms
  by (cases c; cases pr)
    (simp_all add: init_interleaved_def init_body_interleaved_def Let_def setters)

subsection \<open>Auxiliary facts about the listener table\<close>



lemma register_listeners:
  "provider_listeners (perform_all (register_calls run cl) ps) =
     provider_listeners ps @
       [(''accountsChanged'', (run, AccountsChangedFn cl)),
        (''chainChanged'', (run, ChainChangedFn)),
        (''contextAccountsChanged'', (run, ContextAccountsChangedFn cl))]"
  by (simp add: register_calls_def provider_on_def)


lemma handlers_store_payload:
  "accounts (accountsChanged cl xs s) = xs"
  "contextAccounts (contextAccountsChanged cl xs s) = xs"
  "chainId (chainChanged n s) = n"
  by (simp_all add: accountsChanged_def contextAccountsChanged_def chainChanged_def setters)

subsection \<open>The claims\<close>

text \<open>
  C1. The claim: after initialization and after each handled provider event,
  \<open>walletConnected\<close> is true exactly when \<open>accounts\<close> and \<open>contextAccounts\<close> both
  have a first element. The handlers compute the flag from the event's list and from the
  first element of the other array as the render that registered them saw it. When the
  provider reports \<open>accountsChanged\<close> and then \<open>contextAccountsChanged\<close> to the
  listeners registered on mount, before the effect has run again, both arrays end with a
  first element and the flag is false.
\<close>

theorem walletConnected_stale_after_two_events:
  "Option.bind
     (emit
        (eff_provider
           (mount (Some UpProviderRef)
              \<lparr>eth_accounts_result = Inr [], eth_chainId_result = Inr 0,
               mounted_after_eth_accounts = True, mounted_after_eth_chainId = True\<rparr>
              \<lparr>provider_contextAccounts = [], provider_listeners = []\<rparr>))
        ''accountsChanged'' (AccountList [''0xa''])
        (eff_state
           (mount (Some UpProviderRef)
              \<lparr>eth_accounts_result = Inr [], eth_chainId_result = Inr 0,
               mounted_after_eth_accounts = True, mounted_after_eth_chainId = True\<rparr>
              \<lparr>provider_contextAccounts = [], provider_listeners = []\<rparr>)))
     (emit
        (eff_provider
           (mount (Some UpProviderRef)
              \<lparr>eth_accounts_result = Inr [], eth_chainId_result = Inr 0,
               mounted_after_eth_accounts = True, mounted_after_eth_chainId = True\<rparr>
              \<lparr>provider_contextAccounts = [], provider_listeners = []\<rparr>))
        ''contextAccountsChanged'' (AccountList [''0xc'']))
   = Some \<lparr>chainId = 0, accounts = [''0xa''], contextAccounts = [''0xc''],
           walletConnected = False, selectedAddress = None, isSearching = False\<rparr>"
  by (simp add: mount_def effect_def Let_def init_guard client_def register_calls_def
      render_closure_def first_def provider_on_def emit_def initial_state_def
      accountsChanged_def contextAccountsChanged_def setters)

text \<open>
  What does hold: a handler whose closure has the current first element of the other
  array leaves the flag right, \<open>chainChanged\<close> keeps it right, and so does an \<open>init\<close>
  that runs to its end. An \<open>init\<close> whose second request rejects has stored the new
  accounts and not the flag.
\<close>

lemma handlers_keep_flag_when_closure_current:
  "contextAccount cl = first (contextAccounts s) \<Longrightarrow>
     flag_reflects_arrays (accountsChanged cl xs s)"
  "account cl = first (accounts s) \<Longrightarrow>
     flag_reflects_arrays (contextAccountsChanged cl xs s)"
  "flag_reflects_arrays s \<Longrightarrow> flag_reflects_arrays (chainChanged n s)"
  by (simp_all add: flag_reflects_arrays_def accountsChanged_def contextAccountsChanged_def
      chainChanged_def setters)

lemma init_complete_flag:
  assumes "c \<noteq> None" "pr \<noteq> None"
    and "eth_accounts_result env = Inr xs" "eth_chainId_result env = Inr n"
    and "mounted_after_eth_accounts env" "mounted_after_eth_chainId env"
  shows "flag_reflects_arrays (res_state (init c pr ps env s))"
  by (simp add: init_complete [OF assms] flag_reflects_arrays_def)

lemma init_rejected_chainId_flag:
  "\<not> flag_reflects_arrays
       (res_state
          (init (client (Some UpProviderRef) 42) (Some UpProviderRef)
             \<lparr>provider_contextAccounts = [''0xc''], provider_listeners = []\<rparr>
             \<lparr>eth_accounts_result = Inr [''0xa''], eth_chainId_result = Inl (Error ''rpc''),
              mounted_after_eth_accounts = True, mounted_after_eth_chainId = True\<rparr>
             \<lparr>chainId = 42, accounts = [], contextAccounts = [''0xc''],
              walletConnected = False, selectedAddress = None, isSearching = False\<rparr>))"
  by (simp add: init_def init_body_def client_def flag_reflects_arrays_def first_def setters)

text \<open>
  C2. The claim: on mount the component queries the provider for \<open>eth_accounts\<close> and
  \<open>eth_chainId\<close> and stores the answers. On mount the chain id is 0, the client is null
  and \<open>init\<close> returns at its guard: with a provider that would answer \<open>[0xa]\<close> and 42,
  no request is made and the state stays the initial one.
\<close>

theorem mount_issues_no_request:
  "request_names
     (eff_calls
        (mount (Some UpProviderRef)
           \<lparr>eth_accounts_result = Inr [''0xa''], eth_chainId_result = Inr 42,
            mounted_after_eth_accounts = True, mounted_after_eth_chainId = True\<rparr>
           \<lparr>provider_contextAccounts = [], provider_listeners = []\<rparr>)) = [] \<and>
   eff_state
     (mount (Some UpProviderRef)
        \<lparr>eth_accounts_result = Inr [''0xa''], eth_chainId_result = Inr 42,
         mounted_after_eth_accounts = True, mounted_after_eth_chainId = True\<rparr>
        \<lparr>provider_contextAccounts = [], provider_listeners = []\<rparr>) = initial_state"
  by (simp add: mount_def effect_def Let_def init_guard client_def initial_state_def
      register_calls_def)

text \<open>
  C2, amended. On mount the chain id is 0, the client is null and \<open>init\<close> returns at
  its guard: no request is made and the state stays the initial one. When the effect
  runs with a provider handle and a nonzero chain id, \<open>init\<close> requests
  \<open>eth_accounts\<close>, and it requests \<open>eth_chainId\<close> exactly when \<open>eth_accounts\<close> has
  resolved and the effect run was not cleaned up before \<open>init\<close> resumed. When both
  requests resolve and the run is not cleaned up before either resumption, \<open>init\<close>
  calls \<open>setAccounts\<close> with the answer to \<open>eth_accounts\<close> and \<open>setChainId\<close> with the
  answer to \<open>eth_chainId\<close>: when \<open>init\<close> ends, \<open>chainId\<close> is the answer to
  \<open>eth_chainId\<close>, and \<open>accounts\<close> is what the events handled while \<open>eth_chainId\<close>
  was pending have left of the stored answer to \<open>eth_accounts\<close>, hence that answer when
  they did not change \<open>accounts\<close>, and in particular when nothing happened during the
  waits, as in \<open>effect\<close>.
\<close>

theorem init_queries_and_populates:
  assumes "pr = Some p" and "chainId s \<noteq> 0"
  shows "request_names (res_calls (init_interleaved (client pr (chainId s)) pr ps env f g s)) =
       (case eth_accounts_result env of
          Inl e \<Rightarrow> [''eth_accounts'']
        | Inr xs \<Rightarrow>
            if mounted_after_eth_accounts env then [''eth_accounts'', ''eth_chainId'']
            else [''eth_accounts'']) \<and>
     request_names (eff_calls (effect pr run env ps s)) =
       request_names (res_calls (init_interleaved (client pr (chainId s)) pr ps env f g s)) \<and>
     (eth_accounts_result env = Inr xs \<and> eth_chainId_result env = Inr n \<and>
      mounted_after_eth_accounts env \<and> mounted_after_eth_chainId env \<longrightarrow>
        chainId (res_state (init_interleaved (client pr (chainId s)) pr ps env f g s)) = n \<and>
        accounts (res_state (init_interleaved (client pr (chainId s)) pr ps env f g s)) =
          accounts (g (setAccounts xs (f s))) \<and>
        ((\<forall>t. accounts (g t) = accounts t) \<longrightarrow>
           accounts (res_state (init_interleaved (client pr (chainId s)) pr ps env f g s)) = xs) \<and>
        accounts (eff_state (effect pr run env ps s)) = xs \<and>
        chainId (eff_state (effect pr run env ps s)) = n) \<and>
     request_names (eff_calls (mount pr env' ps')) = [] \<and>
     eff_state (mount pr env' ps') = initial_state"
proof -
  have c: "client pr (chainId s) \<noteq> None" "pr \<noteq> None"
    using assms by (simp_all add: client_def)
  have m: "client pr (chainId initial_state) = None"
    by (simp add: client_def initial_state_def split: option.splits)
  note req = init_interleaved_requests [OF c, of ps env]
  have eff: "request_names (eff_calls (effect pr run env ps s)) =
      request_names (res_calls (init (client pr (chainId s)) pr ps env s))"
    using assms(1)
    by (simp add: effect_def Let_def request_names_append register_calls_def)
  have 1: "request_names (res_calls (init_interleaved (client pr (chainId s)) pr ps env f g s)) =
       (case eth_accounts_result env of
          Inl e \<Rightarrow> [''eth_accounts'']
        | Inr xs \<Rightarrow>
            if mounted_after_eth_accounts env then [''eth_accounts'', ''eth_chainId'']
            else [''eth_accounts''])"
    by (rule req)
  have 2: "request_names (eff_calls (effect pr run env ps s)) =
       request_names (res_calls (init_interleaved (client pr (chainId s)) pr ps env f g s))"
    using req [of f g s] req [of "\<lambda>s. s" "\<lambda>s. s" s]
    by (simp add: eff init_interleaved_nothing)
  have 3: "chainId (res_state (init_interleaved (client pr (chainId s)) pr ps env f g s)) = n \<and>
        accounts (res_state (init_interleaved (client pr (chainId s)) pr ps env f g s)) =
          accounts (g (setAccounts xs (f s))) \<and>
        ((\<forall>t. accounts (g t) = accounts t) \<longrightarrow>
           accounts (res_state (init_interleaved (client pr (chainId s)) pr ps env f g s)) = xs) \<and>
        accounts (eff_state (effect pr run env ps s)) = xs \<and>
        chainId (eff_state (effect pr run env ps s)) = n"
    if h: "eth_accounts_result env = Inr xs \<and> eth_chainId_result env = Inr n \<and>
      mounted_after_eth_accounts env \<and> mounted_after_eth_chainId env"
  proof -
    from h have hs: "eth_accounts_result env = Inr xs" "eth_chainId_result env = Inr n"
      "mounted_after_eth_accounts env" "mounted_after_eth_chainId env" by simp_all
    have st: "res_state (init_interleaved (client pr (chainId s)) pr ps env f g s) =
      (g (setAccounts xs (f s)))
        \<lparr>chainId := n, contextAccounts := provider_contextAccounts ps,
         walletConnected := (first xs \<noteq> None \<and> first (provider_contextAccounts ps) \<noteq> None)\<rparr>"
      by (rule init_interleaved_complete [OF c hs])
    have e: "eff_state (effect pr run env ps s) =
        res_state (init (client pr (chainId s)) pr ps env s)"
      using assms(1) by (simp add: effect_def Let_def)
    show ?thesis
      by (simp add: st e init_complete [OF c hs] setAccounts_def)
  qed
  have 4: "request_names (eff_calls (mount pr env' ps')) = [] \<and>
     eff_state (mount pr env' ps') = initial_state"
    using assms(1) init_guard [of "client pr (chainId initial_state)", OF disjI1 [OF m]]
    by (simp add: mount_def effect_def Let_def register_calls_def)
  from 1 2 3 4 show ?thesis by blast
qed

theorem init_queries_and_populates_witness:
  "request_names
     (res_calls
        (init_interleaved (client (Some UpProviderRef) 4201) (Some UpProviderRef)
           \<lparr>provider_contextAccounts = [], provider_listeners = []\<rparr>
           \<lparr>eth_accounts_result = Inr [''0xa''], eth_chainId_result = Inr 42,
            mounted_after_eth_accounts = True, mounted_after_eth_chainId = True\<rparr>
           (accountsChanged \<lparr>account = None, contextAccount = None\<rparr> [''0xb''])
           (chainChanged 7)
           (setChainId 4201 initial_state))) = [''eth_accounts'', ''eth_chainId''] \<and>
   chainId
     (res_state
        (init_interleaved (client (Some UpProviderRef) 4201) (Some UpProviderRef)
           \<lparr>provider_contextAccounts = [], provider_listeners = []\<rparr>
           \<lparr>eth_accounts_result = Inr [''0xa''], eth_chainId_result = Inr 42,
            mounted_after_eth_accounts = True, mounted_after_eth_chainId = True\<rparr>
           (accountsChanged \<lparr>account = None, contextAccount = None\<rparr> [''0xb''])
           (chainChanged 7)
           (setChainId 4201 initial_state))) = 42 \<and>
   accounts
     (res_state
        (init_interleaved (client (Some UpProviderRef) 4201) (Some UpProviderRef)
           \<lparr>provider_contextAccounts = [], provider_listeners = []\<rparr>
           \<lparr>eth_accounts_result = Inr [''0xa''], eth_chainId_result = Inr 42,
            mounted_after_eth_accounts = True, mounted_after_eth_chainId = True\<rparr>
           (accountsChanged \<lparr>account = None, contextAccount = None\<rparr> [''0xb''])
           (chainChanged 7)
           (setChainId 4201 initial_state))) = [''0xa'']"
proof -
  have h1: "Some UpProviderRef = Some UpProviderRef" by simp
  have h2: "chainId (setChainId 4201 initial_state) \<noteq> 0" by (simp add: setChainId_def)
  have g: "\<forall>t. accounts (chainChanged 7 t) = accounts t"
    by (simp add: chainChanged_def setChainId_def)
  have c: "client (Some UpProviderRef) (chainId (setChainId 4201 initial_state)) =
      client (Some UpProviderRef) 4201"
    by (simp add: setChainId_def)
  show ?thesis
    using g init_queries_and_populates [OF h1 h2,
        of "\<lparr>provider_contextAccounts = [], provider_listeners = []\<rparr>"
          "\<lparr>eth_accounts_result = Inr [''0xa''], eth_chainId_result = Inr 42,
            mounted_after_eth_accounts = True, mounted_after_eth_chainId = True\<rparr>"
          "accountsChanged \<lparr>account = None, contextAccount = None\<rparr> [''0xb'']"
          "chainChanged 7" 1 "[''0xa'']" 42]
    by (simp add: c setAccounts_def)
qed

text \<open>
  C3. The claim: the state is mutated only from the component's own event handlers and
  its initialization; no code outside the component mutates it. The context value hands
  \<open>setSelectedAddress\<close> and \<open>setIsSearching\<close> to every descendant: a descendant that
  obtains the value through \<open>useUpProvider\<close> and calls \<open>setIsSearching(true)\<close>
  changes the \<open>isSearching\<close> cell.
\<close>

theorem descendant_setter_mutates_state:
  "useUpProvider [data (Some UpProviderRef) initial_state] = Inr (data (Some UpProviderRef) initial_state) \<and>
   isSearching (ctx_setIsSearching (data (Some UpProviderRef) initial_state) True initial_state) = True \<and>
   isSearching initial_state = False"
  by (simp add: useUpProvider_def useContext_def first_def data_def setIsSearching_def
      initial_state_def)

text \<open>
  C3, amended. The cells \<open>chainId\<close>, \<open>accounts\<close>, \<open>contextAccounts\<close> and
  \<open>walletConnected\<close> are left as they are by both functions that the context value
  hands out, so they change only in the component's own handlers and initialization; the
  cells \<open>selectedAddress\<close> and \<open>isSearching\<close> are left as they are by the
  initialization and by the three handlers, so they change only through the two setters
  that the context value hands to descendant code.
\<close>

theorem cells_mutated_by_their_owner:
  "mirrored (ctx_setSelectedAddress (data pr s0) a s) = mirrored s \<and>
   mirrored (ctx_setIsSearching (data pr s0) b s) = mirrored s \<and>
   consumer_cells (res_state (init c pr ps env s)) = consumer_cells s \<and>
   consumer_cells (accountsChanged cl xs s) = consumer_cells s \<and>
   consumer_cells (contextAccountsChanged cl xs s) = consumer_cells s \<and>
   consumer_cells (chainChanged n s) = consumer_cells s"
  by (simp add: init_consumer_cells)
   (simp add: data_def mirrored_def consumer_cells_def accountsChanged_def
      contextAccountsChanged_def chainChanged_def setters)

text \<open>
  C4. Whatever the two initialization requests do, the promise of \<open>init\<close> does not
  reject: an error thrown by a request is caught and written once with
  \<open>console.error\<close>. No request is made a second time and none after the failing one.
  The error reaches no cell of the state: after a failing \<open>eth_accounts\<close> the state and
  the exposed context value are what they were; after a failing \<open>eth_chainId\<close> they
  differ only by the accounts stored before it.
\<close>

theorem init_errors_caught_and_logged:
  "res_thrown (init c pr ps env s) = None \<and>
   (c \<noteq> None \<and> pr \<noteq> None \<and> eth_accounts_result env = Inl e \<longrightarrow>
      init c pr ps env s =
        \<lparr>res_state = s, res_calls = [Request ''eth_accounts''], res_console = [e],
         res_thrown = None\<rparr> \<and>
      data pr (res_state (init c pr ps env s)) = data pr s) \<and>
   (c \<noteq> None \<and> pr \<noteq> None \<and> eth_accounts_result env = Inr xs \<and>
    mounted_after_eth_accounts env \<and> eth_chainId_result env = Inl e \<longrightarrow>
      init c pr ps env s =
        \<lparr>res_state = setAccounts xs s,
         res_calls = [Request ''eth_accounts'', Request ''eth_chainId''], res_console = [e],
         res_thrown = None\<rparr> \<and>
      data pr (res_state (init c pr ps env s)) = data pr (setAccounts xs s))"
proof (intro conjI impI)
  show "res_thrown (init c pr ps env s) = None"
    by (simp add: init_def split: prod.splits option.splits)
next
  assume a: "c \<noteq> None \<and> pr \<noteq> None \<and> eth_accounts_result env = Inl e"
  then show r: "init c pr ps env s =
        \<lparr>res_state = s, res_calls = [Request ''eth_accounts''], res_console = [e],
         res_thrown = None\<rparr>"
    by (simp add: init_def init_body_def)
  then show "data pr (res_state (init c pr ps env s)) = data pr s" by simp
next
  assume a: "c \<noteq> None \<and> pr \<noteq> None \<and> eth_accounts_result env = Inr xs \<and>
    mounted_after_eth_accounts env \<and> eth_chainId_result env = Inl e"
  then show r: "init c pr ps env s =
        \<lparr>res_state = setAccounts xs s,
         res_calls = [Request ''eth_accounts'', Request ''eth_chainId''], res_console = [e],
         res_thrown = None\<rparr>"
    by (simp add: init_def init_body_def Let_def)
  then show "data pr (res_state (init c pr ps env s)) = data pr (setAccounts xs s)" by simp
qed

theorem init_errors_caught_and_logged_witness:
  "init (client (Some UpProviderRef) 42) (Some UpProviderRef)
      \<lparr>provider_contextAccounts = [''0xc''], provider_listeners = []\<rparr>
      \<lparr>eth_accounts_result = Inl (Error ''rpc''), eth_chainId_result = Inr 42,
       mounted_after_eth_accounts = True, mounted_after_eth_chainId = True\<rparr>
      (setChainId 42 initial_state) =
     \<lparr>res_state = setChainId 42 initial_state, res_calls = [Request ''eth_accounts''],
      res_console = [Error ''rpc''], res_thrown = None\<rparr> \<and>
   init (client (Some UpProviderRef) 42) (Some UpProviderRef)
      \<lparr>provider_contextAccounts = [''0xc''], provider_listeners = []\<rparr>
      \<lparr>eth_accounts_result = Inr [''0xa''], eth_chainId_result = Inl (Error ''rpc''),
       mounted_after_eth_accounts = True, mounted_after_eth_chainId = True\<rparr>
      (setChainId 42 initial_state) =
     \<lparr>res_state = setAccounts [''0xa''] (setChainId 42 initial_state),
      res_calls = [Request ''eth_accounts'', Request ''eth_chainId''],
      res_console = [Error ''rpc''], res_thrown = None\<rparr>"
proof -
  have c: "client (Some UpProviderRef) 42 \<noteq> None"
    by (simp add: client_def)
  have a: "init (client (Some UpProviderRef) 42) (Some UpProviderRef)
      \<lparr>provider_contextAccounts = [''0xc''], provider_listeners = []\<rparr>
      \<lparr>eth_accounts_result = Inl (Error ''rpc''), eth_chainId_result = Inr 42,
       mounted_after_eth_accounts = True, mounted_after_eth_chainId = True\<rparr>
      (setChainId 42 initial_state) =
     \<lparr>res_state = setChainId 42 initial_state, res_calls = [Request ''eth_accounts''],
      res_console = [Error ''rpc''], res_thrown = None\<rparr>"
    using c init_errors_caught_and_logged
      [of "client (Some UpProviderRef) 42" "Some UpProviderRef"
        "\<lparr>provider_contextAccounts = [''0xc''], provider_listeners = []\<rparr>"
        "\<lparr>eth_accounts_result = Inl (Error ''rpc''), eth_chainId_result = Inr 42,
         mounted_after_eth_accounts = True, mounted_after_eth_chainId = True\<rparr>"
        "setChainId 42 initial_state" "Error ''rpc''" "[]"]
    by simp
  have b: "init (client (Some UpProviderRef) 42) (Some UpProviderRef)
      \<lparr>provider_contextAccounts = [''0xc''], provider_listeners = []\<rparr>
      \<lparr>eth_accounts_result = Inr [''0xa''], eth_chainId_result = Inl (Error ''rpc''),
       mounted_after_eth_accounts = True, mounted_after_eth_chainId = True\<rparr>
      (setChainId 42 initial_state) =
     \<lparr>res_state = setAccounts [''0xa''] (setChainId 42 initial_state),
      res_calls = [Request ''eth_accounts'', Request ''eth_chainId''],
      res_console = [Error ''rpc''], res_thrown = None\<rparr>"
    using c init_errors_caught_and_logged
      [of "client (Some UpProviderRef) 42" "Some UpProviderRef"
        "\<lparr>provider_contextAccounts = [''0xc''], provider_listeners = []\<rparr>"
        "\<lparr>eth_accounts_result = Inr [''0xa''], eth_chainId_result = Inl (Error ''rpc''),
         mounted_after_eth_accounts = True, mounted_after_eth_chainId = True\<rparr>"
        "setChainId 42 initial_state" "Error ''rpc''" "[''0xa'']"]
    by simp
  from a b show ?thesis by simp
qed



text \<open>
  C6. With the listeners of an effect run registered on the provider (and no others in
  its table), an \<open>accountsChanged\<close> event sets \<open>accounts\<close> to the event's account
  list, a \<open>contextAccountsChanged\<close> event sets \<open>contextAccounts\<close> to the event's
  account list, and a \<open>chainChanged\<close> event sets \<open>chainId\<close> to the event's chain id,
  whatever the state was.
\<close>

theorem provider_events_update_state:
  assumes "provider_listeners ps = []"
  shows "map_option accounts
       (emit (eff_provider (effect (Some p) run env ps s0)) ''accountsChanged''
          (AccountList xs) s) = Some xs \<and>
     map_option contextAccounts
       (emit (eff_provider (effect (Some p) run env ps s0)) ''contextAccountsChanged''
          (AccountList xs) s) = Some xs \<and>
     map_option chainId
       (emit (eff_provider (effect (Some p) run env ps s0)) ''chainChanged''
          (ChainNumber n) s) = Some n"
proof -
  have reg: "provider_listeners (eff_provider (effect (Some p) run env ps s0)) =
       [(''accountsChanged'', (run, AccountsChangedFn (render_closure s0))),
        (''chainChanged'', (run, ChainChangedFn)),
        (''contextAccountsChanged'', (run, ContextAccountsChangedFn (render_closure s0)))]"
    using assms by (simp add: effect_def Let_def register_listeners)
  show ?thesis
    by (simp add: emit_def reg handlers_store_payload)
qed

theorem provider_events_update_state_witness:
  "map_option accounts
       (emit (eff_provider (mount (Some UpProviderRef)
           \<lparr>eth_accounts_result = Inr [], eth_chainId_result = Inr 0,
            mounted_after_eth_accounts = True, mounted_after_eth_chainId = True\<rparr>
           \<lparr>provider_contextAccounts = [], provider_listeners = []\<rparr>)) ''accountsChanged''
          (AccountList [''0xa'']) initial_state) = Some [''0xa''] \<and>
     map_option contextAccounts
       (emit (eff_provider (mount (Some UpProviderRef)
           \<lparr>eth_accounts_result = Inr [], eth_chainId_result = Inr 0,
            mounted_after_eth_accounts = True, mounted_after_eth_chainId = True\<rparr>
           \<lparr>provider_contextAccounts = [], provider_listeners = []\<rparr>)) ''contextAccountsChanged''
          (AccountList [''0xc'']) initial_state) = Some [''0xc''] \<and>
     map_option chainId
       (emit (eff_provider (mount (Some UpProviderRef)
           \<lparr>eth_accounts_result = Inr [], eth_chainId_result = Inr 0,
            mounted_after_eth_accounts = True, mounted_after_eth_chainId = True\<rparr>
           \<lparr>provider_contextAccounts = [], provider_listeners = []\<rparr>)) ''chainChanged''
          (ChainNumber 42) initial_state) = Some 42"
proof -
  have h: "provider_listeners \<lparr>provider_contextAccounts = [], provider_listeners = []\<rparr> = []"
    by simp
  show ?thesis
    unfolding mount_def
    using provider_events_update_state [OF h, of UpProviderRef 0 _ initial_state "[''0xa'']" initial_state 42]
      provider_events_update_state [OF h, of UpProviderRef 0 _ initial_state "[''0xc'']" initial_state 42]
    by simp
qed

text \<open>
  C7. The claim: for every pair of provider responses, and with the component mounted
  throughout the initialization, making the two requests in the opposite order leaves
  the same final state as the order of the source. A request may also reject. With
  \<open>mounted\<close> true at both checks, \<open>eth_accounts\<close> answering \<open>[0xa]\<close> and
  \<open>eth_chainId\<close> rejecting, the source's order has stored the accounts before the
  failure and the opposite order has stored nothing: the final states differ.
\<close>

theorem init_request_order_differs_on_rejection:
  "res_state
     (init_chainId_first (client (Some UpProviderRef) 42) (Some UpProviderRef)
        \<lparr>provider_contextAccounts = [], provider_listeners = []\<rparr>
        \<lparr>eth_accounts_result = Inr [''0xa''], eth_chainId_result = Inl (Error ''rpc''),
         mounted_after_eth_accounts = True, mounted_after_eth_chainId = True\<rparr>
        (setChainId 42 initial_state)) \<noteq>
   res_state
     (init (client (Some UpProviderRef) 42) (Some UpProviderRef)
        \<lparr>provider_contextAccounts = [], provider_listeners = []\<rparr>
        \<lparr>eth_accounts_result = Inr [''0xa''], eth_chainId_result = Inl (Error ''rpc''),
         mounted_after_eth_accounts = True, mounted_after_eth_chainId = True\<rparr>
        (setChainId 42 initial_state))"
  by (simp add: init_def init_body_def init_chainId_first_def init_body_chainId_first_def
      client_def initial_state_def setters)

text \<open>
  C7, amended. For every pair of answers with which the two requests resolve, an account
  list and a chain id, and with the effect run that started \<open>init\<close> not cleaned up
  during the initialization (its variable \<open>mounted\<close> is true at both checks), making
  the two requests in the opposite order leaves the same final state as the order of the
  source. The two orders are compared as \<open>init\<close> and \<open>init_chainId_first\<close> run, with
  nothing else changing the state while a request is pending.
\<close>

theorem init_request_order_irrelevant:
  assumes "eth_accounts_result env = Inr xs" and "eth_chainId_result env = Inr n"
    and "mounted_after_eth_accounts env" and "mounted_after_eth_chainId env"
  shows "res_state (init_chainId_first c pr ps env s) = res_state (init c pr ps env s)"
proof (cases "c = None \<or> pr = None")
  case True
  then show ?thesis by (simp add: init_guard init_chainId_first_guard)
next
  case False
  then have "c \<noteq> None" "pr \<noteq> None" by simp_all
  from init_complete [OF this assms] init_chainId_first_complete [OF this assms]
  show ?thesis by (simp add: up_state.equality)
qed

theorem init_request_order_irrelevant_witness:
  "res_state
     (init_chainId_first (client (Some UpProviderRef) 4201) (Some UpProviderRef)
        \<lparr>provider_contextAccounts = [''0xc''], provider_listeners = []\<rparr>
        \<lparr>eth_accounts_result = Inr [''0xa''], eth_chainId_result = Inr 42,
         mounted_after_eth_accounts = True, mounted_after_eth_chainId = True\<rparr>
        (setChainId 4201 initial_state)) =
   res_state
     (init (client (Some UpProviderRef) 4201) (Some UpProviderRef)
        \<lparr>provider_contextAccounts = [''0xc''], provider_listeners = []\<rparr>
        \<lparr>eth_accounts_result = Inr [''0xa''], eth_chainId_result = Inr 42,
         mounted_after_eth_accounts = True, mounted_after_eth_chainId = True\<rparr>
        (setChainId 4201 initial_state)) \<and>
   res_state
     (init (client (Some UpProviderRef) 4201) (Some UpProviderRef)
        \<lparr>provider_contextAccounts = [''0xc''], provider_listeners = []\<rparr>
        \<lparr>eth_accounts_result = Inr [''0xa''], eth_chainId_result = Inr 42,
         mounted_after_eth_accounts = True, mounted_after_eth_chainId = True\<rparr>
        (setChainId 4201 initial_state)) =
     \<lparr>chainId = 42, accounts = [''0xa''], contextAccounts = [''0xc''],
      walletConnected = True, selectedAddress = None, isSearching = False\<rparr>"
proof -
  have "res_state
     (init (client (Some UpProviderRef) 4201) (Some UpProviderRef)
        \<lparr>provider_contextAccounts = [''0xc''], provider_listeners = []\<rparr>
        \<lparr>eth_accounts_result = Inr [''0xa''], eth_chainId_result = Inr 42,
         mounted_after_eth_accounts = True, mounted_after_eth_chainId = True\<rparr>
        (setChainId 4201 initial_state)) =
     \<lparr>chainId = 42, accounts = [''0xa''], contextAccounts = [''0xc''],
      walletConnected = True, selectedAddress = None, isSearching = False\<rparr>"
    by (simp add: init_def init_body_def client_def Let_def first_def initial_state_def setters)
  then show ?thesis
    using init_request_order_irrelevant
      [of "\<lparr>eth_accounts_result = Inr [''0xa''], eth_chainId_result = Inr 42,
         mounted_after_eth_accounts = True, mounted_after_eth_chainId = True\<rparr>"
        "[''0xa'']" 42 "client (Some UpProviderRef) 4201" "Some UpProviderRef"
        "\<lparr>provider_contextAccounts = [''0xc''], provider_listeners = []\<rparr>"
        "setChainId 4201 initial_state"]
    by simp
qed

text \<open>
  C8. Over an effect run and its cleanup, every request made on the provider is named
  \<open>eth_accounts\<close> or \<open>eth_chainId\<close>, and every event subscribed to or unsubscribed
  from is named \<open>accountsChanged\<close>, \<open>chainChanged\<close> or \<open>contextAccountsChanged\<close>.
\<close>

theorem fixed_request_and_event_names:
  "set (request_names (eff_calls (effect pr run env ps s) @ cleanup_calls run cl))
     \<subseteq> {''eth_accounts'', ''eth_chainId''} \<and>
   set (subscribed_names (eff_calls (effect pr run env ps s) @ cleanup_calls run cl))
     \<subseteq> {''accountsChanged'', ''chainChanged'', ''contextAccountsChanged''} \<and>
   set (unsubscribed_names (eff_calls (effect pr run env ps s) @ cleanup_calls run cl))
     \<subseteq> {''accountsChanged'', ''chainChanged'', ''contextAccountsChanged''}"
proof -
  have r: "request_names (register_calls run c') = []"
    "request_names (cleanup_calls run cl) = []"
    "subscribed_names (cleanup_calls run cl) = []"
    "unsubscribed_names (register_calls run c') = []" for c'
    by (simp_all add: register_calls_def cleanup_calls_def)
  have s: "subscribed_names (register_calls run c') =
      [''accountsChanged'', ''chainChanged'', ''contextAccountsChanged'']" for c'
    by (simp add: register_calls_def)
  have u: "unsubscribed_names (cleanup_calls run cl) =
      [''accountsChanged'', ''contextAccountsChanged'', ''chainChanged'']"
    by (simp add: cleanup_calls_def)
  show ?thesis
    using init_request_names(1) [of "client pr (chainId s)" pr ps env s]
    by (cases pr)
      (simp_all add: effect_def Let_def request_names_append subscribed_names_append
        unsubscribed_names_append init_request_names(2,3) r s u)
qed

theorem fixed_request_and_event_names_witness:
  "request_names
     (eff_calls
        (effect (Some UpProviderRef) 1
           \<lparr>eth_accounts_result = Inr [''0xa''], eth_chainId_result = Inr 42,
            mounted_after_eth_accounts = True, mounted_after_eth_chainId = True\<rparr>
           \<lparr>provider_contextAccounts = [], provider_listeners = []\<rparr>
           (setChainId 42 initial_state))) = [''eth_accounts'', ''eth_chainId''] \<and>
   set (request_names
     (eff_calls
        (effect (Some UpProviderRef) 1
           \<lparr>eth_accounts_result = Inr [''0xa''], eth_chainId_result = Inr 42,
            mounted_after_eth_accounts = True, mounted_after_eth_chainId = True\<rparr>
           \<lparr>provider_contextAccounts = [], provider_listeners = []\<rparr>
           (setChainId 42 initial_state)) @ cleanup_calls 1 (render_closure initial_state)))
     \<subseteq> {''eth_accounts'', ''eth_chainId''}"
proof -
  have "request_names
     (eff_calls
        (effect (Some UpProviderRef) 1
           \<lparr>eth_accounts_result = Inr [''0xa''], eth_chainId_result = Inr 42,
            mounted_after_eth_accounts = True, mounted_after_eth_chainId = True\<rparr>
           \<lparr>provider_contextAccounts = [], provider_listeners = []\<rparr>
           (setChainId 42 initial_state))) = [''eth_accounts'', ''eth_chainId'']"
    by (simp add: effect_def Let_def init_def init_body_def client_def register_calls_def
        initial_state_def setters)
  then show ?thesis
    using fixed_request_and_event_names [of "Some UpProviderRef" 1
           "\<lparr>eth_accounts_result = Inr [''0xa''], eth_chainId_result = Inr 42,
            mounted_after_eth_accounts = True, mounted_after_eth_chainId = True\<rparr>"
           "\<lparr>provider_contextAccounts = [], provider_listeners = []\<rparr>"
           "setChainId 42 initial_state" "render_closure initial_state"]
    by blast
qed

text \<open>
  C9. Called outside every \<open>UpProvider\<close> (no enclosing provider, so the context value is
  undefined) the hook throws the error with the message
  "useUpProvider must be used within a UpProvider"; called inside one it returns the
  value of the nearest provider, which is the \<open>data\<close> of that component, and does not
  throw.
\<close>

theorem useUpProvider_outside_throws_inside_returns:
  "useUpProvider [] = Inl (Error ''useUpProvider must be used within a UpProvider'') \<and>
   useUpProvider (data pr s # outer) = Inr (data pr s)"
  by (simp add: useUpProvider_def useContext_def first_def)

text \<open>
  C10. The wallet client and the read client are both null when the provider handle is
  null or the chain id is 0; with a handle and a nonzero chain id both exist, on the
  lukso chain when the chain id is 42 and on luksoTestnet for every other nonzero chain
  id.
\<close>

theorem client_readClient_chain:
  "(pr = None \<or> n = 0 \<longrightarrow> client pr n = None \<and> readClient pr n = None) \<and>
   (pr = Some p \<and> n = 42 \<longrightarrow>
      client pr n = Some (WalletClient lukso (custom p)) \<and>
      readClient pr n = Some (PublicClient lukso (custom p))) \<and>
   (pr = Some p \<and> n \<noteq> 0 \<and> n \<noteq> 42 \<longrightarrow>
      client pr n = Some (WalletClient luksoTestnet (custom p)) \<and>
      readClient pr n = Some (PublicClient luksoTestnet (custom p)))"
  by (auto simp: client_def readClient_def split: option.splits)

theorem client_readClient_chain_witness:
  "client None 42 = None \<and> readClient None 42 = None \<and>
   client (Some UpProviderRef) 0 = None \<and> readClient (Some UpProviderRef) 0 = None \<and>
   client (Some UpProviderRef) 42 = Some (WalletClient lukso (custom UpProviderRef)) \<and>
   readClient (Some UpProviderRef) 42 = Some (PublicClient lukso (custom UpProviderRef)) \<and>
   client (Some UpProviderRef) 4201 = Some (WalletClient luksoTestnet (custom UpProviderRef)) \<and>
   readClient (Some UpProviderRef) 4201 =
     Some (PublicClient luksoTestnet (custom UpProviderRef))"
proof -
  have a: "client None 42 = None \<and> readClient None 42 = None"
    using client_readClient_chain [of None 42 UpProviderRef] by simp
  have b: "client (Some UpProviderRef) 0 = None \<and> readClient (Some UpProviderRef) 0 = None"
    using client_readClient_chain [of "Some UpProviderRef" 0 UpProviderRef] by simp
  have c: "client (Some UpProviderRef) 42 = Some (WalletClient lukso (custom UpProviderRef)) \<and>
      readClient (Some UpProviderRef) 42 = Some (PublicClient lukso (custom UpProviderRef))"
    using client_readClient_chain [of "Some UpProviderRef" 42 UpProviderRef] by simp
  have d: "client (Some UpProviderRef) 4201 =
        Some (WalletClient luksoTestnet (custom UpProviderRef)) \<and>
      readClient (Some UpProviderRef) 4201 =
        Some (PublicClient luksoTestnet (custom UpProviderRef))"
    using client_readClient_chain [of "Some UpProviderRef" 4201 UpProviderRef] by simp
  from a b c d show ?thesis by simp
qed

end
